theory Spec2Isabelle
  imports Complex_Main "HOL-Library.Word"
begin

section \<open>JavaScript strings and values\<close>

text \<open>
  A JavaScript string is a sequence of UTF-16 code units; \<open>length\<close>, \<open>trim\<close> and
  \<open>startsWith\<close> work on code units. String literals of the source are ASCII and are
  written \<open>ascii ''...''\<close>.
\<close>

type_synonym code_unit = "16 word"
type_synonym jsstring = "code_unit list"

definition ascii :: "string \<Rightarrow> jsstring" where
  "ascii cs = map (\<lambda>c. word_of_nat (of_char c)) cs"

text \<open>
  \<open>String.prototype.trim\<close> removes WhiteSpace and LineTerminator code points from both
  ends: TAB, LF, VT, FF, CR, SP, NBSP, U+1680, U+2000..U+200A, U+2028, U+2029, U+202F,
  U+205F, U+3000 and U+FEFF.
\<close>

definition isWhiteSpace :: "code_unit \<Rightarrow> bool" where
  "isWhiteSpace c \<longleftrightarrow>
     c \<in> {0x9, 0xA, 0xB, 0xC, 0xD, 0x20, 0xA0, 0x1680, 0x2028, 0x2029, 0x202F, 0x205F,
          0x3000, 0xFEFF}
     \<or> (0x2000 \<le> c \<and> c \<le> 0x200A)"

definition trim :: "jsstring \<Rightarrow> jsstring" where
  "trim s = rev (dropWhile isWhiteSpace (rev (dropWhile isWhiteSpace s)))"

definition startsWith :: "jsstring \<Rightarrow> jsstring \<Rightarrow> bool" where
  "startsWith s p \<longleftrightarrow> take (length p) s = p"

text \<open>Decimal rendering of a number inside a template literal.\<close>

fun string_of_nat :: "nat \<Rightarrow> string" where
  "string_of_nat n =
     (if n < 10 then [char_of (48 + n)]
      else string_of_nat (n div 10) @ [char_of (48 + n mod 10)])"

text \<open>
  A value read from a parsed JSON body. \<open>Undefined\<close> is what reading an absent property
  gives; \<open>Object\<close> stands for any object or array (always truthy).
\<close>

datatype jsval = Undefined | Null | Bool bool | Num rat | Str jsstring | Object

fun truthy :: "jsval \<Rightarrow> bool" where
  "truthy Undefined = False"
| "truthy Null = False"
| "truthy (Bool b) = b"
| "truthy (Num n) = (n \<noteq> 0)"
| "truthy (Str s) = (s \<noteq> [])"
| "truthy Object = True"


section \<open>Token Service: the \<open>/api/token\<close> handler\<close>

text \<open>
  The request as the handler reads it: \<open>req.method\<close> and \<open>req.body\<close>. The body is
  \<open>None\<close> when the parsed body is \<open>null\<close> or \<open>undefined\<close> (a request whose JSON
  text is \<open>null\<close>); otherwise it is given by the four properties that the destructuring
  \<open>const { accountSid, apiKey, apiSecret, appSid } = req.body\<close> reads from it (a body
  that is a string, a number, a boolean or an array has none of them).
\<close>

record token_body =
  body_accountSid :: jsval
  body_apiKey :: jsval
  body_apiSecret :: jsval
  body_appSid :: jsval

record request =
  req_method :: jsstring
  body :: "token_body option"

text \<open>The objects of the provider's library that the handler builds.\<close>

record voice_grant =
  outgoingApplicationSid :: jsval
  incomingAllow :: bool

record access_token =
  tok_accountSid :: jsval
  tok_keySid :: jsval
  tok_secret :: jsval
  identity :: jsstring
  ttl :: nat
  grants :: "voice_grant list"

datatype json_body = ErrorBody jsstring | TokenBody jsstring jsstring

record response =
  status :: nat
  json :: json_body

text \<open>
  Lines 21 to 35 of the handler: \<open>new AccessToken(accountSid, apiKey, apiSecret,
  {identity, ttl: 3600})\<close>, \<open>new VoiceGrant({outgoingApplicationSid: appSid,
  incomingAllow: false})\<close> and \<open>addGrant\<close>.
\<close>

definition build_token :: "token_body \<Rightarrow> access_token" where
  "build_token b =
     \<lparr> tok_accountSid = body_accountSid b,
       tok_keySid = body_apiKey b,
       tok_secret = body_apiSecret b,
       identity = ascii ''web-client'',
       ttl = 3600,
       grants = [\<lparr> outgoingApplicationSid = body_appSid b, incomingAllow = False \<rparr>] \<rparr>"

text \<open>
  The handler. Signing is the library's: \<open>toJwt\<close> is a parameter, and \<open>None\<close> is an
  exception raised inside the \<open>try\<close> block, which the \<open>catch\<close> turns into status 500.
  The destructuring of line 12 stands before the \<open>try\<close>: on a body that is \<open>null\<close>
  or \<open>undefined\<close> it raises a \<open>TypeError\<close> that the handler does not catch, and the
  handler sends no answer of its own.
\<close>

datatype handler_error = TypeError

definition handler ::
  "(access_token \<Rightarrow> jsstring option) \<Rightarrow> request \<Rightarrow> handler_error + response" where
  "handler toJwt req =
     (if req_method req \<noteq> ascii ''POST'' then
        Inr \<lparr> status = 405, json = ErrorBody (ascii ''Method not allowed'') \<rparr>
      else
        (case body req of
           None \<Rightarrow> Inl TypeError
         | Some b \<Rightarrow>
             (if \<not> truthy (body_accountSid b) \<or> \<not> truthy (body_apiKey b)
                 \<or> \<not> truthy (body_apiSecret b) \<or> \<not> truthy (body_appSid b) then
                Inr \<lparr> status = 400,
                      json = ErrorBody
                        (ascii ''Missing required Twilio credentials in request body'') \<rparr>
              else
                (let accessToken = build_token b in
                 case toJwt accessToken of
                   Some jwt \<Rightarrow>
                     Inr \<lparr> status = 200, json = TokenBody jwt (identity accessToken) \<rparr>
                 | None \<Rightarrow>
                     Inr \<lparr> status = 500,
                           json = ErrorBody (ascii ''Failed to generate access token'') \<rparr>))))"

text \<open>A request in which every falsy credential field has been left out.\<close>

definition omit_falsy :: "token_body \<Rightarrow> token_body" where
  "omit_falsy b =
     \<lparr> body_accountSid = (if truthy (body_accountSid b) then body_accountSid b else Undefined),
       body_apiKey = (if truthy (body_apiKey b) then body_apiKey b else Undefined),
       body_apiSecret = (if truthy (body_apiSecret b) then body_apiSecret b else Undefined),
       body_appSid = (if truthy (body_appSid b) then body_appSid b else Undefined) \<rparr>"


section \<open>Call Controller: state\<close>

datatype CallStatus = idle | connecting | in_call | call_ended | error

text \<open>
  The item under the key \<open>twilioCredentials\<close> of the browser's local storage, as the
  mount effect sees it: an empty text (falsy), a text on which \<open>JSON.parse\<close> or the
  property reads raise, or a parsed value with its four properties, each a string or
  absent.
\<close>

record stored_credentials =
  stored_accountSid :: "jsstring option"
  stored_apiKey :: "jsstring option"
  stored_apiSecret :: "jsstring option"
  stored_appSid :: "jsstring option"

datatype stored_item = EmptyText | Unparsable | Parsed stored_credentials

text \<open>A Device of the calling SDK: constructed with a token, destroyed or not, registered or not.\<close>

record device =
  dev_token :: jsstring
  destroyed :: bool
  registered :: bool

text \<open>The two callbacks that the source passes to \<open>setTimeout(..., 3000)\<close>.\<close>

datatype timeout_action = ResetAfterCall | ResetAfterConnectFailure

text \<open>
  The component's state (the \<open>useState\<close> cells and the three refs), followed by the
  part of the browser and of the SDK that the component acts on: the storage item, every
  Device constructed so far, the number of calls placed, the calls on which
  \<open>disconnect()\<close> was requested, the running intervals (timer id, milliseconds to the
  next firing), the pending timeouts (milliseconds left, callback) and the number of timers
  created. Timer ids are positive, so a stored id is truthy.
\<close>

record state =
  callStatus :: CallStatus
  statusMessage :: jsstring
  isLoading :: bool
  callDuration :: nat
  accountSid :: jsstring
  apiKey :: jsstring
  apiSecret :: jsstring
  appSid :: jsstring
  isConfigured :: bool
  showConfigForm :: bool
  deviceRef :: "nat option"
  currentCallRef :: "nat option"
  timerRef :: "nat option"
  localStorage :: "stored_item option"
  devices :: "device list"
  callsPlaced :: nat
  disconnectRequests :: "nat list"
  intervals :: "(nat \<times> nat) list"
  timeouts :: "(nat \<times> timeout_action) list"
  timersCreated :: nat

definition initial_state :: "stored_item option \<Rightarrow> state" where
  "initial_state item =
     \<lparr> callStatus = idle,
       statusMessage = ascii ''Enter Twilio credentials to start'',
       isLoading = False,
       callDuration = 0,
       accountSid = [], apiKey = [], apiSecret = [], appSid = [],
       isConfigured = False,
       showConfigForm = False,
       deviceRef = None, currentCallRef = None, timerRef = None,
       localStorage = item,
       devices = [],
       callsPlaced = 0,
       disconnectRequests = [],
       intervals = [],
       timeouts = [],
       timersCreated = 0 \<rparr>"

text \<open>What an exception carries: an \<open>Error\<close> with its message, or some other value.\<close>

datatype thrown = ErrorObj jsstring | NonError

definition error_message :: "thrown \<Rightarrow> jsstring" where
  "error_message t = (case t of ErrorObj m \<Rightarrow> m | NonError \<Rightarrow> ascii ''Unknown error'')"

text \<open>
  The outcome of \<open>fetch('/api/token', ...)\<close>: the promise rejects, or it resolves to a
  response with a status, a status text and a body on which \<open>json()\<close> raises or gives an
  object with the properties \<open>error\<close> and \<open>token\<close>.
\<close>

record api_json =
  json_error :: "jsstring option"
  json_token :: "jsstring option"

datatype json_result = JsonThrows thrown | JsonValue api_json

datatype fetch_outcome = FetchRejects thrown | FetchResolves nat jsstring json_result

definition response_ok :: "nat \<Rightarrow> bool" where
  "response_ok st \<longleftrightarrow> 200 \<le> st \<and> st \<le> 299"


section \<open>Credential Store\<close>

definition saveCredentialsToStorage :: "state \<Rightarrow> state" where
  "saveCredentialsToStorage s =
     s\<lparr> localStorage := Some (Parsed
          \<lparr> stored_accountSid = Some (accountSid s),
            stored_apiKey = Some (apiKey s),
            stored_apiSecret = Some (apiSecret s),
            stored_appSid = Some (appSid s) \<rparr>) \<rparr>"

definition clearCredentialsFromStorage :: "state \<Rightarrow> state" where
  "clearCredentialsFromStorage s = s\<lparr> localStorage := None \<rparr>"

definition areCredentialsComplete :: "state \<Rightarrow> bool" where
  "areCredentialsComplete s =
     (let hasAllFields = (trim (accountSid s) \<noteq> [] \<and> trim (apiKey s) \<noteq> []
                          \<and> trim (apiSecret s) \<noteq> [] \<and> trim (appSid s) \<noteq> [])
      in if \<not> hasAllFields then False
         else
           (let isValidAccountSid = (startsWith (trim (accountSid s)) (ascii ''AC'')
                                     \<and> length (trim (accountSid s)) > 20);
                isValidApiKey = (startsWith (trim (apiKey s)) (ascii ''SK'')
                                 \<and> length (trim (apiKey s)) > 20);
                isValidAppSid = (startsWith (trim (appSid s)) (ascii ''AP'')
                                 \<and> length (trim (appSid s)) > 20)
            in isValidAccountSid \<and> isValidApiKey \<and> isValidAppSid))"

definition clearInvalidCredentials :: "state \<Rightarrow> state" where
  "clearInvalidCredentials s =
     s\<lparr> localStorage := None,
        accountSid := [], apiKey := [], apiSecret := [], appSid := [],
        isConfigured := False,
        showConfigForm := True,
        statusMessage := ascii ''Please enter valid Twilio credentials'' \<rparr>"

text \<open>\<open>x || ''\<close> and the truthiness of a stored property.\<close>

definition or_empty :: "jsstring option \<Rightarrow> jsstring" where
  "or_empty v = (case v of None \<Rightarrow> [] | Some x \<Rightarrow> x)"

definition present :: "jsstring option \<Rightarrow> bool" where
  "present v = (case v of None \<Rightarrow> False | Some x \<Rightarrow> x \<noteq> [])"

text \<open>The effect that runs on mount and loads the persisted credentials.\<close>

definition loadCredentials :: "state \<Rightarrow> state" where
  "loadCredentials s =
     (case localStorage s of
        None \<Rightarrow> s\<lparr> showConfigForm := True \<rparr>
      | Some EmptyText \<Rightarrow> s\<lparr> showConfigForm := True \<rparr>
      | Some Unparsable \<Rightarrow> s\<lparr> localStorage := None, showConfigForm := True \<rparr>
      | Some (Parsed c) \<Rightarrow>
          (let s1 = s\<lparr> accountSid := or_empty (stored_accountSid c),
                       apiKey := or_empty (stored_apiKey c),
                       apiSecret := or_empty (stored_apiSecret c),
                       appSid := or_empty (stored_appSid c) \<rparr>
           in if present (stored_accountSid c) \<and> present (stored_apiKey c)
                 \<and> present (stored_apiSecret c) \<and> present (stored_appSid c) then
                (if stored_accountSid c = Some (ascii ''***'')
                    \<or> stored_apiKey c = Some (ascii ''***'')
                    \<or> stored_appSid c = Some (ascii ''***'')
                 then clearInvalidCredentials s1
                 else s1\<lparr> isConfigured := True, statusMessage := ascii ''Ready to call'' \<rparr>)
              else s1\<lparr> showConfigForm := True \<rparr>))"


section \<open>Call Controller: the Device\<close>

text \<open>The events of a Device for which \<open>initializeDevice\<close> installs a listener.\<close>

datatype device_event = Registered | DeviceError jsstring | Incoming

definition device_on :: "device_event \<Rightarrow> state \<Rightarrow> state" where
  "device_on ev s =
     (case ev of
        Registered \<Rightarrow>
          s\<lparr> statusMessage := ascii ''Device ready - Click to call agent'',
             isLoading := False,
             callStatus := idle \<rparr>
      | DeviceError m \<Rightarrow>
          s\<lparr> callStatus := error,
             statusMessage := ascii ''Device error: '' @ m,
             isLoading := False \<rparr>
      | Incoming \<Rightarrow> s)"

text \<open>\<open>deviceRef.current.destroy()\<close> on the Device with index \<open>d\<close>.\<close>

definition destroy :: "nat \<Rightarrow> state \<Rightarrow> state" where
  "destroy d s =
     (if d < length (devices s)
      then s\<lparr> devices := (devices s)[d := (devices s ! d)\<lparr> destroyed := True \<rparr>] \<rparr>
      else s)"

text \<open>
  What the surroundings do during one run of \<open>initializeDevice\<close>: the outcome of the
  token request, whether \<open>new Device(...)\<close> raises, the Device events delivered while
  \<open>register()\<close> is awaited (the listeners are installed before it), and whether
  \<open>register()\<close> rejects.
\<close>

record init_env =
  env_fetch :: fetch_outcome
  env_construct :: "thrown option"
  env_events :: "device_event list"
  env_register :: "thrown option"

text \<open>The \<open>catch\<close> block of \<open>initializeDevice\<close>.\<close>

definition init_failed :: "thrown \<Rightarrow> state \<Rightarrow> state" where
  "init_failed t s =
     s\<lparr> callStatus := error,
        statusMessage := ascii ''Failed to initialize device: '' @ error_message t,
        isLoading := False \<rparr>"

definition initializeDevice :: "init_env \<Rightarrow> state \<Rightarrow> state" where
  "initializeDevice env s =
     (if \<not> areCredentialsComplete s then
        s\<lparr> statusMessage := ascii ''Missing Twilio credentials. Please configure first.'',
           callStatus := error \<rparr>
      else
        (let s1 = (case deviceRef s of
                     Some d \<Rightarrow> (destroy d s)\<lparr> deviceRef := None \<rparr>
                   | None \<Rightarrow> s);
             s2 = s1\<lparr> isLoading := True,
                      statusMessage := ascii ''Initializing Twilio Device...'' \<rparr>
         in case env_fetch env of
              FetchRejects t \<Rightarrow> init_failed t s2
            | FetchResolves st stText js \<Rightarrow>
                (if \<not> response_ok st then
                   (case js of
                      JsonThrows t \<Rightarrow> init_failed t s2
                    | JsonValue errorData \<Rightarrow>
                        init_failed
                          (ErrorObj
                            (if present (json_error errorData)
                             then or_empty (json_error errorData)
                             else ascii ''Failed to get access token: '' @ ascii (string_of_nat st)
                                  @ ascii '' '' @ stText))
                          s2)
                 else
                   (case js of
                      JsonThrows t \<Rightarrow> init_failed t s2
                    | JsonValue responseData \<Rightarrow>
                        (if \<not> present (json_token responseData) then
                           init_failed (ErrorObj (ascii ''No token received from API'')) s2
                         else
                           (case env_construct env of
                              Some t \<Rightarrow> init_failed t s2
                            | None \<Rightarrow>
                                (let dev = length (devices s2);
                                     s3 = s2\<lparr> devices := devices s2 @
                                            [\<lparr> dev_token = or_empty (json_token responseData),
                                               destroyed = False,
                                               registered = False \<rparr>] \<rparr>;
                                     s4 = fold device_on (env_events env) s3
                                 in case env_register env of
                                      Some t \<Rightarrow> init_failed t s4
                                    | None \<Rightarrow>
                                        s4\<lparr> devices := (devices s4)
                                               [dev := (devices s4 ! dev)\<lparr> registered := True \<rparr>],
                                            deviceRef := Some dev \<rparr>)))))))"

text \<open>
  The outcomes that send a run of \<open>initializeDevice\<close> to its early return or into its
  \<open>catch\<close> block: incomplete credentials, a token request that rejects, answers with a
  status outside 200..299, has an unreadable body or carries no token, a Device
  constructor that raises, a \<open>register()\<close> that rejects.
\<close>

definition initialization_fails :: "init_env \<Rightarrow> state \<Rightarrow> bool" where
  "initialization_fails env s \<longleftrightarrow>
     \<not> areCredentialsComplete s
     \<or> (case env_fetch env of
           FetchRejects t \<Rightarrow> True
         | FetchResolves st stText js \<Rightarrow>
             \<not> response_ok st
             \<or> (case js of JsonThrows t \<Rightarrow> True | JsonValue d \<Rightarrow> \<not> present (json_token d)))
     \<or> env_construct env \<noteq> None
     \<or> env_register env \<noteq> None"

text \<open>The probe succeeds when the request resolves and \<open>response.ok\<close> holds.\<close>

definition probe_succeeds :: "fetch_outcome \<Rightarrow> bool" where
  "probe_succeeds p =
     (case p of FetchRejects t \<Rightarrow> False | FetchResolves st stText js \<Rightarrow> response_ok st)"

text \<open>The \<open>catch\<close> block of \<open>handleConfigure\<close>.\<close>

definition configure_failed :: "thrown \<Rightarrow> state \<Rightarrow> state" where
  "configure_failed t s =
     s\<lparr> statusMessage := ascii ''Credential validation failed: '' @ error_message t,
        isLoading := False \<rparr>"

text \<open>
  \<open>handleConfigure\<close>: \<open>probe\<close> is the outcome of its own token request, \<open>env\<close> the run
  of \<open>initializeDevice\<close> that it starts after a successful probe.
\<close>

definition handleConfigure :: "fetch_outcome \<Rightarrow> init_env \<Rightarrow> state \<Rightarrow> state" where
  "handleConfigure probe env s =
     (if \<not> areCredentialsComplete s then
        s\<lparr> statusMessage := ascii ''Please fill in all Twilio credentials'' \<rparr>
      else
        (let s1 = s\<lparr> isLoading := True, statusMessage := ascii ''Testing credentials...'' \<rparr>
         in case probe of
              FetchRejects t \<Rightarrow> configure_failed t s1
            | FetchResolves st stText js \<Rightarrow>
                (if \<not> response_ok st then
                   (case js of
                      JsonThrows t \<Rightarrow> configure_failed t s1
                    | JsonValue errorData \<Rightarrow>
                        configure_failed
                          (ErrorObj
                            (if present (json_error errorData)
                             then or_empty (json_error errorData)
                             else ascii ''Failed to test credentials: '' @ ascii (string_of_nat st)))
                          s1)
                 else
                   initializeDevice env
                     ((saveCredentialsToStorage s1)
                        \<lparr> isConfigured := True,
                          showConfigForm := False,
                          statusMessage := ascii ''Credentials validated! Ready to call'' \<rparr>))))"

definition resetConfiguration :: "state \<Rightarrow> state" where
  "resetConfiguration s =
     (let s1 = clearCredentialsFromStorage
                 (s\<lparr> isConfigured := False,
                     callStatus := idle,
                     statusMessage := ascii ''Enter Twilio credentials to start'',
                     showConfigForm := True,
                     accountSid := [], apiKey := [], apiSecret := [], appSid := [] \<rparr>)
      in case deviceRef s1 of
           Some d \<Rightarrow> (destroy d s1)\<lparr> deviceRef := None \<rparr>
         | None \<Rightarrow> s1)"

text \<open>The Devices that have been constructed and not destroyed.\<close>

definition live_devices :: "state \<Rightarrow> device list" where
  "live_devices s = filter (\<lambda>d. \<not> destroyed d) (devices s)"


section \<open>Call Controller: calls and timers\<close>

text \<open>\<open>setTimeout(callback, 3000)\<close>.\<close>

definition setTimeout3000 :: "timeout_action \<Rightarrow> state \<Rightarrow> state" where
  "setTimeout3000 a s =
     s\<lparr> timeouts := timeouts s @ [(3000, a)], timersCreated := Suc (timersCreated s) \<rparr>"

text \<open>The block under the comment \<open>Stop timer\<close>, the same in four listeners.\<close>

definition stop_timer :: "state \<Rightarrow> state" where
  "stop_timer s =
     (case timerRef s of
        Some t \<Rightarrow> s\<lparr> intervals := filter (\<lambda>(i, r). i \<noteq> t) (intervals s), timerRef := None \<rparr>
      | None \<Rightarrow> s)"

definition run_timeout :: "timeout_action \<Rightarrow> state \<Rightarrow> state" where
  "run_timeout a s =
     (case a of
        ResetAfterCall \<Rightarrow>
          s\<lparr> callStatus := idle, statusMessage := ascii ''Ready to call'', callDuration := 0 \<rparr>
      | ResetAfterConnectFailure \<Rightarrow>
          s\<lparr> callStatus := idle, statusMessage := ascii ''Ready to call'' \<rparr>)"

text \<open>\<open>makeCall\<close>: \<open>conn\<close> tells whether \<open>deviceRef.current.connect(...)\<close> raises.\<close>

definition makeCall :: "thrown option \<Rightarrow> state \<Rightarrow> state" where
  "makeCall conn s =
     (case deviceRef s of
        None \<Rightarrow> s\<lparr> statusMessage := ascii ''Device not initialized'' \<rparr>
      | Some d \<Rightarrow>
          (let s1 = s\<lparr> callStatus := connecting, statusMessage := ascii ''Connecting...'' \<rparr>
           in case conn of
                Some t \<Rightarrow>
                  setTimeout3000 ResetAfterConnectFailure
                    (s1\<lparr> callStatus := error, statusMessage := ascii ''Failed to make call'' \<rparr>)
              | None \<Rightarrow>
                  s1\<lparr> currentCallRef := Some (callsPlaced s1),
                      callsPlaced := Suc (callsPlaced s1) \<rparr>))"

definition hangupCall :: "state \<Rightarrow> state" where
  "hangupCall s =
     (case currentCallRef s of
        Some c \<Rightarrow> s\<lparr> disconnectRequests := disconnectRequests s @ [c] \<rparr>
      | None \<Rightarrow> s)"

text \<open>The events of a Call for which \<open>makeCall\<close> installs a listener.\<close>

datatype call_event = Accept | Disconnect | Cancel | Reject | CallError jsstring

definition call_ended_with :: "jsstring \<Rightarrow> state \<Rightarrow> state" where
  "call_ended_with msg s =
     setTimeout3000 ResetAfterCall
       (stop_timer (s\<lparr> callStatus := call_ended, statusMessage := msg, currentCallRef := None \<rparr>))"

definition call_on :: "call_event \<Rightarrow> state \<Rightarrow> state" where
  "call_on ev s =
     (case ev of
        Accept \<Rightarrow>
          (let t = Suc (timersCreated s)
           in s\<lparr> callStatus := in_call,
                 statusMessage := ascii ''In call with agent'',
                 callDuration := 0,
                 timerRef := Some t,
                 intervals := intervals s @ [(t, 1000)],
                 timersCreated := t \<rparr>)
      | Disconnect \<Rightarrow> call_ended_with (ascii ''Call ended'') s
      | Cancel \<Rightarrow> call_ended_with (ascii ''Call cancelled'') s
      | Reject \<Rightarrow> call_ended_with (ascii ''Call rejected'') s
      | CallError m \<Rightarrow>
          setTimeout3000 ResetAfterCall
            (stop_timer (s\<lparr> callStatus := error,
                            statusMessage := ascii ''Call error: '' @ m,
                            currentCallRef := None \<rparr>)))"

text \<open>
  One millisecond passes: every interval due fires (\<open>setCallDuration(prev => prev + 1)\<close>)
  and is rearmed for 1000 ms, then every timeout due runs its callback and is dropped.
\<close>

definition tick_ms :: "state \<Rightarrow> state" where
  "tick_ms s =
     (let due = length (filter (\<lambda>(i, r). r \<le> 1) (intervals s));
          s1 = s\<lparr> intervals := map (\<lambda>(i, r). (i, if r \<le> 1 then 1000 else r - 1)) (intervals s),
                  callDuration := callDuration s + due \<rparr>;
          fired = map snd (filter (\<lambda>(r, a). r \<le> 1) (timeouts s1));
          s2 = s1\<lparr> timeouts := map (\<lambda>(r, a). (r - 1, a))
                                   (filter (\<lambda>(r, a). \<not> r \<le> 1) (timeouts s1)) \<rparr>
      in fold run_timeout fired s2)"

fun elapse :: "nat \<Rightarrow> state \<Rightarrow> state" where
  "elapse 0 s = s"
| "elapse (Suc n) s = elapse n (tick_ms s)"


section \<open>Sample inputs\<close>

text \<open>Concrete requests, states and surroundings on which the theorems below are exercised.\<close>

definition sample_body :: token_body where
  "sample_body =
     \<lparr> body_accountSid = Str (ascii ''AC'' @ replicate 25 0x78),
       body_apiKey = Str (ascii ''SK'' @ replicate 25 0x78),
       body_apiSecret = Str (ascii ''s3cret''),
       body_appSid = Str (ascii ''AP'' @ replicate 25 0x78) \<rparr>"

definition post_empty_secret :: request where
  "post_empty_secret =
     \<lparr> req_method = ascii ''POST'', body = Some (sample_body \<lparr> body_apiSecret := Str [] \<rparr>) \<rparr>"

definition post_null_body :: request where
  "post_null_body = \<lparr> req_method = ascii ''POST'', body = None \<rparr>"

definition sample_state :: state where
  "sample_state =
     (initial_state None)
       \<lparr> accountSid := ascii ''AC'' @ replicate 25 0x78,
         apiKey := ascii ''SK'' @ replicate 25 0x78,
         apiSecret := ascii ''s3cret'',
         appSid := ascii ''AP'' @ replicate 25 0x78 \<rparr>"


definition token_response :: fetch_outcome where
  "token_response =
     FetchResolves 200 (ascii ''OK'')
       (JsonValue \<lparr> json_error = None, json_token = Some (ascii ''jwt'') \<rparr>)"

definition rejected_response :: fetch_outcome where
  "rejected_response =
     FetchResolves 500 (ascii ''Internal Server Error'')
       (JsonValue \<lparr> json_error = Some (ascii ''Failed to generate access token''),
                    json_token = None \<rparr>)"

definition env_ok :: init_env where
  "env_ok =
     \<lparr> env_fetch = token_response,
       env_construct = None,
       env_events = [Registered],
       env_register = None \<rparr>"

definition env_register_rejects :: init_env where
  "env_register_rejects =
     \<lparr> env_fetch = token_response,
       env_construct = None,
       env_events = [],
       env_register = Some (ErrorObj (ascii ''registration failed'')) \<rparr>"

definition stored_masked_secret :: stored_credentials where
  "stored_masked_secret =
     \<lparr> stored_accountSid = Some (ascii ''AC'' @ replicate 25 0x78),
       stored_apiKey = Some (ascii ''SK'' @ replicate 25 0x78),
       stored_apiSecret = Some (ascii ''***''),
       stored_appSid = Some (ascii ''AP'' @ replicate 25 0x78) \<rparr>"

definition stored_masked_account :: stored_credentials where
  "stored_masked_account = stored_masked_secret \<lparr> stored_accountSid := Some (ascii ''***'') \<rparr>"

definition stored_masked_account_no_key :: stored_credentials where
  "stored_masked_account_no_key = stored_masked_account \<lparr> stored_apiKey := None \<rparr>"

definition call_at_12s :: state where
  "call_at_12s =
     (call_on Accept (makeCall None (initializeDevice env_ok sample_state)))
       \<lparr> callDuration := 12 \<rparr>"


section \<open>Token Service: properties\<close>

lemma ascii_GET_POST: "ascii ''GET'' \<noteq> ascii ''POST''"
  by (simp add: ascii_def)

lemma truthy_sample_body:
  "truthy (body_accountSid sample_body)" "truthy (body_apiKey sample_body)"
  "truthy (body_apiSecret sample_body)" "truthy (body_appSid sample_body)"
  by (simp_all add: sample_body_def ascii_def)

text \<open>
  The answers of the token endpoint on a body that can be destructured. A method other
  than POST gives 405 with an error body, whatever the body. A POST in which one of the
  four credential properties is absent gives 400 with the message about missing
  credentials. A POST whose four properties are truthy gives 200 with the signed token and
  the identity \<open>web-client\<close> when signing returns a token, and 500 with an error body
  when signing raises.
\<close>

lemma token_endpoint_object_body:
  "(req_method req \<noteq> ascii ''POST'' \<longrightarrow>
      handler toJwt req = Inr \<lparr> status = 405, json = ErrorBody (ascii ''Method not allowed'') \<rparr>)
   \<and> (req_method req = ascii ''POST'' \<and> body req = Some b
       \<and> (body_accountSid b = Undefined \<or> body_apiKey b = Undefined
          \<or> body_apiSecret b = Undefined \<or> body_appSid b = Undefined) \<longrightarrow>
      handler toJwt req =
        Inr \<lparr> status = 400,
              json = ErrorBody (ascii ''Missing required Twilio credentials in request body'') \<rparr>)
   \<and> (req_method req = ascii ''POST'' \<and> body req = Some b
       \<and> truthy (body_accountSid b) \<and> truthy (body_apiKey b)
       \<and> truthy (body_apiSecret b) \<and> truthy (body_appSid b)
       \<and> toJwt (build_token b) = Some t \<longrightarrow>
      handler toJwt req = Inr \<lparr> status = 200, json = TokenBody t (ascii ''web-client'') \<rparr>)
   \<and> (req_method req = ascii ''POST'' \<and> body req = Some b
       \<and> truthy (body_accountSid b) \<and> truthy (body_apiKey b)
       \<and> truthy (body_apiSecret b) \<and> truthy (body_appSid b)
       \<and> toJwt (build_token b) = None \<longrightarrow>
      handler toJwt req =
        Inr \<lparr> status = 500, json = ErrorBody (ascii ''Failed to generate access token'') \<rparr>)"
  by (auto simp: handler_def Let_def build_token_def)

text \<open>
  C4. The claim is that every POST missing one of the four credential fields is answered
  with status 400 and an error body. Evaluated on a POST whose parsed body is \<open>null\<close>,
  which has none of the four fields: the handler raises a \<open>TypeError\<close> at the
  destructuring, before its \<open>try\<close>, and sends neither the 400 answer nor any other,
  whatever the signing function is. The same body with another method is answered with
  405, and a POST whose body is the empty object is answered with 400.
\<close>

theorem null_body_post_raises:
  "handler toJwt post_null_body = Inl TypeError
   \<and> handler toJwt (post_null_body\<lparr> req_method := ascii ''GET'' \<rparr>) =
       Inr \<lparr> status = 405, json = ErrorBody (ascii ''Method not allowed'') \<rparr>
   \<and> handler toJwt
        (post_null_body\<lparr> body := Some \<lparr> body_accountSid = Undefined, body_apiKey = Undefined,
                                        body_apiSecret = Undefined, body_appSid = Undefined \<rparr> \<rparr>) =
       Inr \<lparr> status = 400,
             json = ErrorBody (ascii ''Missing required Twilio credentials in request body'') \<rparr>"
  by (simp add: handler_def post_null_body_def ascii_GET_POST)

theorem null_body_post_raises_witness:
  "handler (\<lambda>t. Some (ascii ''jwt'')) post_null_body = Inl TypeError
   \<and> handler (\<lambda>t. None) post_null_body = Inl TypeError"
  using null_body_post_raises [of "\<lambda>t. Some (ascii ''jwt'')"]
        null_body_post_raises [of "\<lambda>t. None"]
  by simp

text \<open>
  C5. A token that the endpoint returns with status 200 is the signature of an access
  token built with the identity \<open>web-client\<close>, a time to live of 3600 seconds (one
  hour), and exactly one voice grant, whose outgoing application is the application id of
  the request and which does not allow incoming calls.
\<close>

theorem minted_token_grant:
  assumes "handler toJwt req = Inr \<lparr> status = 200, json = TokenBody t i \<rparr>"
  shows "\<exists>b. body req = Some b
             \<and> toJwt (build_token b) = Some t
             \<and> i = ascii ''web-client''
             \<and> identity (build_token b) = ascii ''web-client''
             \<and> ttl (build_token b) = 60 * 60
             \<and> grants (build_token b) =
                 [\<lparr> outgoingApplicationSid = body_appSid b, incomingAllow = False \<rparr>]"
  using assms
  by (auto simp: handler_def Let_def build_token_def split: if_splits option.splits)

theorem minted_token_grant_witness:
  "handler (\<lambda>t. Some (ascii ''jwt'')) \<lparr> req_method = ascii ''POST'', body = Some sample_body \<rparr> =
     Inr \<lparr> status = 200, json = TokenBody (ascii ''jwt'') (ascii ''web-client'') \<rparr>
   \<and> ttl (build_token sample_body) = 3600
   \<and> grants (build_token sample_body) =
       [\<lparr> outgoingApplicationSid = body_appSid sample_body, incomingAllow = False \<rparr>]"
proof -
  have h: "handler (\<lambda>t. Some (ascii ''jwt''))
             \<lparr> req_method = ascii ''POST'', body = Some sample_body \<rparr> =
     Inr \<lparr> status = 200, json = TokenBody (ascii ''jwt'') (ascii ''web-client'') \<rparr>"
    by (simp add: handler_def Let_def build_token_def truthy_sample_body)
  from minted_token_grant [OF h] h show ?thesis by simp
qed

text \<open>
  C10. Presence is truthiness: a POST in which one of the four credential properties of
  the body is falsy (the empty string, \<open>null\<close>, \<open>false\<close>, zero or absent) gets status
  400 with the message about missing credentials, whatever the signing function is (it is
  not called), and this is the answer given to the same request with the falsy properties
  left out.
\<close>

theorem falsy_field_is_missing:
  assumes "req_method req = ascii ''POST''"
    and "body req = Some b"
    and "\<not> truthy (body_accountSid b) \<or> \<not> truthy (body_apiKey b)
         \<or> \<not> truthy (body_apiSecret b) \<or> \<not> truthy (body_appSid b)"
  shows "handler toJwt req =
           Inr \<lparr> status = 400,
                 json = ErrorBody
                   (ascii ''Missing required Twilio credentials in request body'') \<rparr>
         \<and> handler toJwt req = handler toJwt' (req\<lparr> body := Some (omit_falsy b) \<rparr>)"
  using assms by (auto simp: handler_def omit_falsy_def)

theorem falsy_field_is_missing_witness:
  "req_method post_empty_secret = ascii ''POST''
   \<and> body post_empty_secret = Some (sample_body \<lparr> body_apiSecret := Str [] \<rparr>)
   \<and> handler (\<lambda>t. Some (ascii ''jwt'')) post_empty_secret =
       Inr \<lparr> status = 400,
             json = ErrorBody (ascii ''Missing required Twilio credentials in request body'') \<rparr>
   \<and> handler (\<lambda>t. Some (ascii ''jwt'')) post_empty_secret =
       handler (\<lambda>t. None)
         (post_empty_secret
            \<lparr> body := Some (omit_falsy (sample_body \<lparr> body_apiSecret := Str [] \<rparr>)) \<rparr>)"
proof -
  have m: "req_method post_empty_secret = ascii ''POST''"
    and e: "body post_empty_secret = Some (sample_body \<lparr> body_apiSecret := Str [] \<rparr>)"
    by (simp_all add: post_empty_secret_def)
  have f: "\<not> truthy (body_accountSid (sample_body \<lparr> body_apiSecret := Str [] \<rparr>))
           \<or> \<not> truthy (body_apiKey (sample_body \<lparr> body_apiSecret := Str [] \<rparr>))
           \<or> \<not> truthy (body_apiSecret (sample_body \<lparr> body_apiSecret := Str [] \<rparr>))
           \<or> \<not> truthy (body_appSid (sample_body \<lparr> body_apiSecret := Str [] \<rparr>))"
    by simp
  from falsy_field_is_missing [OF m e f, of "\<lambda>t. Some (ascii ''jwt'')" "\<lambda>t. None"] m e
  show ?thesis by blast
qed


section \<open>Credential Store: properties\<close>

lemma trim_Nil: "trim [] = []"
  by (simp add: trim_def)

lemma complete_sample_state: "areCredentialsComplete sample_state"
  by (simp add: areCredentialsComplete_def sample_state_def initial_state_def trim_def
      startsWith_def ascii_def isWhiteSpace_def)

lemma sample_state_fields:
  "deviceRef sample_state = None" "devices sample_state = []" "timersCreated sample_state = 0"
  "intervals sample_state = []" "timeouts sample_state = []" "callsPlaced sample_state = 0"
  "currentCallRef sample_state = None" "timerRef sample_state = None"
  "localStorage sample_state = None" "\<not> isConfigured sample_state"
  "\<not> isLoading sample_state" "callDuration sample_state = 0"
  by (simp_all add: sample_state_def initial_state_def)

lemma jwt_nonempty: "ascii ''jwt'' \<noteq> []"
  by (simp add: ascii_def)

lemma placeholder_distinct:
  "ascii ''***'' \<noteq> []"
  "ascii ''AC'' @ replicate 25 0x78 \<noteq> ascii ''***''"
  "ascii ''SK'' @ replicate 25 0x78 \<noteq> ascii ''***''"
  "ascii ''AP'' @ replicate 25 0x78 \<noteq> ascii ''***''"
  by (simp_all add: ascii_def)

lemma areCredentialsComplete_cong:
  "accountSid s' = accountSid s \<Longrightarrow> apiKey s' = apiKey s \<Longrightarrow> apiSecret s' = apiSecret s \<Longrightarrow>
     appSid s' = appSid s \<Longrightarrow> areCredentialsComplete s' = areCredentialsComplete s"
  by (simp add: areCredentialsComplete_def)



text \<open>
  C2, as the code has it. On load of a persisted set in which all four fields are present
  (non-empty), if the account id, the key id or the application id equals the masked value
  \<open>***\<close>, the set is cleared: the persisted item is removed, the four in-memory fields
  are emptied and \<open>isConfigured\<close> is false.
\<close>

theorem load_placeholder_clears:
  assumes "localStorage s = Some (Parsed c)"
    and "present (stored_accountSid c) \<and> present (stored_apiKey c)
         \<and> present (stored_apiSecret c) \<and> present (stored_appSid c)"
    and "stored_accountSid c = Some (ascii ''***'') \<or> stored_apiKey c = Some (ascii ''***'')
         \<or> stored_appSid c = Some (ascii ''***'')"
  shows "localStorage (loadCredentials s) = None
         \<and> accountSid (loadCredentials s) = [] \<and> apiKey (loadCredentials s) = []
         \<and> apiSecret (loadCredentials s) = [] \<and> appSid (loadCredentials s) = []
         \<and> \<not> isConfigured (loadCredentials s)"
  using assms by (auto simp: loadCredentials_def Let_def clearInvalidCredentials_def)

theorem load_placeholder_clears_witness:
  "localStorage (loadCredentials (initial_state (Some (Parsed stored_masked_account)))) = None
   \<and> accountSid (loadCredentials (initial_state (Some (Parsed stored_masked_account)))) = []
   \<and> apiSecret (loadCredentials (initial_state (Some (Parsed stored_masked_account)))) = []
   \<and> \<not> isConfigured (loadCredentials (initial_state (Some (Parsed stored_masked_account))))"
proof -
  have a: "localStorage (initial_state (Some (Parsed stored_masked_account)))
             = Some (Parsed stored_masked_account)"
    by (simp add: initial_state_def)
  have b: "present (stored_accountSid stored_masked_account)
           \<and> present (stored_apiKey stored_masked_account)
           \<and> present (stored_apiSecret stored_masked_account)
           \<and> present (stored_appSid stored_masked_account)"
    by (simp add: stored_masked_account_def stored_masked_secret_def present_def ascii_def)
  have c: "stored_accountSid stored_masked_account = Some (ascii ''***'')
           \<or> stored_apiKey stored_masked_account = Some (ascii ''***'')
           \<or> stored_appSid stored_masked_account = Some (ascii ''***'')"
    by (simp add: stored_masked_account_def)
  from load_placeholder_clears [OF a b c] show ?thesis by simp
qed

text \<open>
  C2 as stated fails on two inputs. A persisted set whose secret is \<open>***\<close> and whose
  other fields are well formed is loaded and marked configured, and stays persisted. A
  persisted set whose account id is \<open>***\<close> and whose key id is absent is not cleared
  either: the item stays persisted and the masked value is loaded into memory.
\<close>

theorem load_placeholder_counterexample:
  "stored_apiSecret stored_masked_secret = Some (ascii ''***'')
   \<and> isConfigured (loadCredentials (initial_state (Some (Parsed stored_masked_secret))))
   \<and> localStorage (loadCredentials (initial_state (Some (Parsed stored_masked_secret))))
       = Some (Parsed stored_masked_secret)
   \<and> apiSecret (loadCredentials (initial_state (Some (Parsed stored_masked_secret))))
       = ascii ''***''
   \<and> stored_accountSid stored_masked_account_no_key = Some (ascii ''***'')
   \<and> localStorage (loadCredentials (initial_state (Some (Parsed stored_masked_account_no_key))))
       = Some (Parsed stored_masked_account_no_key)
   \<and> accountSid (loadCredentials (initial_state (Some (Parsed stored_masked_account_no_key))))
       = ascii ''***''"
  by (simp add: loadCredentials_def Let_def initial_state_def stored_masked_secret_def
      stored_masked_account_no_key_def stored_masked_account_def present_def or_empty_def
      placeholder_distinct)


section \<open>Call Controller: the Device and the configuration\<close>

lemma device_on_frame:
  "localStorage (device_on ev s) = localStorage s"
  "isConfigured (device_on ev s) = isConfigured s"
  "showConfigForm (device_on ev s) = showConfigForm s"
  "timeouts (device_on ev s) = timeouts s"
  "intervals (device_on ev s) = intervals s"
  "devices (device_on ev s) = devices s"
  "deviceRef (device_on ev s) = deviceRef s"
  by (simp_all add: device_on_def split: device_event.splits)

lemma fold_device_on_frame:
  "localStorage (fold device_on evs s) = localStorage s
   \<and> isConfigured (fold device_on evs s) = isConfigured s
   \<and> timeouts (fold device_on evs s) = timeouts s
   \<and> intervals (fold device_on evs s) = intervals s
   \<and> devices (fold device_on evs s) = devices s
   \<and> deviceRef (fold device_on evs s) = deviceRef s"
  by (induction evs arbitrary: s) (simp_all add: device_on_frame)

lemma destroy_frame:
  "localStorage (destroy d s) = localStorage s"
  "isConfigured (destroy d s) = isConfigured s"
  "timeouts (destroy d s) = timeouts s"
  "intervals (destroy d s) = intervals s"
  "deviceRef (destroy d s) = deviceRef s"
  "length (devices (destroy d s)) = length (devices s)"
  by (simp_all add: destroy_def)

lemma initializeDevice_frame:
  "localStorage (initializeDevice env s) = localStorage s
   \<and> isConfigured (initializeDevice env s) = isConfigured s
   \<and> timeouts (initializeDevice env s) = timeouts s
   \<and> intervals (initializeDevice env s) = intervals s"
  by (simp add: initializeDevice_def Let_def init_failed_def destroy_frame fold_device_on_frame
      split: option.splits fetch_outcome.splits json_result.splits)

text \<open>
  C3. \<open>handleConfigure\<close> persists the credential set and sets \<open>isConfigured\<close> when
  the set passes the local format validation and the probe succeeds. When a field is
  empty, the validation fails or the probe fails, the persisted item and \<open>isConfigured\<close>
  are as before (so \<open>isConfigured\<close> stays false when it was false); and, invoked while
  nothing is loading (the Configure button is disabled while \<open>isLoading\<close>), the final
  state differs from the initial one in the status message only.
\<close>

theorem handleConfigure_atomic:
  "(areCredentialsComplete s \<and> probe_succeeds probe \<longrightarrow>
      localStorage (handleConfigure probe env s) =
        Some (Parsed \<lparr> stored_accountSid = Some (accountSid s),
                       stored_apiKey = Some (apiKey s),
                       stored_apiSecret = Some (apiSecret s),
                       stored_appSid = Some (appSid s) \<rparr>)
      \<and> isConfigured (handleConfigure probe env s))
   \<and> (accountSid s = [] \<or> apiKey s = [] \<or> apiSecret s = [] \<or> appSid s = []
       \<or> \<not> areCredentialsComplete s \<or> \<not> probe_succeeds probe \<longrightarrow>
      localStorage (handleConfigure probe env s) = localStorage s
      \<and> isConfigured (handleConfigure probe env s) = isConfigured s
      \<and> (\<not> isLoading s \<longrightarrow>
           handleConfigure probe env s =
             s\<lparr> statusMessage := statusMessage (handleConfigure probe env s) \<rparr>))"
proof (intro conjI impI)
  assume a: "areCredentialsComplete s \<and> probe_succeeds probe"
  then obtain st stText js where p: "probe = FetchResolves st stText js" and ok: "response_ok st"
    by (auto simp: probe_succeeds_def split: fetch_outcome.splits)
  from a p ok show "localStorage (handleConfigure probe env s) =
        Some (Parsed \<lparr> stored_accountSid = Some (accountSid s),
                       stored_apiKey = Some (apiKey s),
                       stored_apiSecret = Some (apiSecret s),
                       stored_appSid = Some (appSid s) \<rparr>)"
    by (simp add: handleConfigure_def Let_def initializeDevice_frame saveCredentialsToStorage_def)
  from a p ok show "isConfigured (handleConfigure probe env s)"
    by (simp add: handleConfigure_def Let_def initializeDevice_frame saveCredentialsToStorage_def)
next
  assume "accountSid s = [] \<or> apiKey s = [] \<or> apiSecret s = [] \<or> appSid s = []
       \<or> \<not> areCredentialsComplete s \<or> \<not> probe_succeeds probe"
  then have b: "\<not> areCredentialsComplete s \<or> \<not> probe_succeeds probe"
    by (auto simp: areCredentialsComplete_def trim_Nil)
  then show "localStorage (handleConfigure probe env s) = localStorage s"
    by (auto simp: handleConfigure_def Let_def configure_failed_def probe_succeeds_def
        split: fetch_outcome.splits json_result.splits)
  from b show "isConfigured (handleConfigure probe env s) = isConfigured s"
    by (auto simp: handleConfigure_def Let_def configure_failed_def probe_succeeds_def
        split: fetch_outcome.splits json_result.splits)
  assume "\<not> isLoading s"
  with b show "handleConfigure probe env s =
             s\<lparr> statusMessage := statusMessage (handleConfigure probe env s) \<rparr>"
    by (cases s) (auto simp: handleConfigure_def Let_def configure_failed_def probe_succeeds_def
        split: fetch_outcome.splits json_result.splits)
qed

lemma probe_samples: "probe_succeeds token_response" "\<not> probe_succeeds rejected_response"
  by (simp_all add: probe_succeeds_def token_response_def rejected_response_def response_ok_def)

theorem handleConfigure_atomic_witness:
  "areCredentialsComplete sample_state \<and> probe_succeeds token_response
   \<and> isConfigured (handleConfigure token_response env_ok sample_state)
   \<and> localStorage (handleConfigure token_response env_ok sample_state) \<noteq> None
   \<and> \<not> probe_succeeds rejected_response
   \<and> localStorage (handleConfigure rejected_response env_ok sample_state) = None
   \<and> \<not> isConfigured (handleConfigure rejected_response env_ok sample_state)
   \<and> handleConfigure rejected_response env_ok sample_state =
       sample_state\<lparr> statusMessage :=
         statusMessage (handleConfigure rejected_response env_ok sample_state) \<rparr>"
proof -
  have s: "localStorage sample_state = None" "\<not> isConfigured sample_state"
    "\<not> isLoading sample_state"
    by (simp_all add: sample_state_def initial_state_def)
  from handleConfigure_atomic [of sample_state token_response env_ok]
       handleConfigure_atomic [of sample_state rejected_response env_ok]
       complete_sample_state probe_samples s
  show ?thesis by simp
qed

section \<open>Timers\<close>

lemma run_timeout_simps:
  "run_timeout ResetAfterCall s =
     s\<lparr> callStatus := idle, statusMessage := ascii ''Ready to call'', callDuration := 0 \<rparr>"
  "run_timeout ResetAfterConnectFailure s =
     s\<lparr> callStatus := idle, statusMessage := ascii ''Ready to call'' \<rparr>"
  by (simp_all add: run_timeout_def)

lemma fold_run_timeout:
  "fold run_timeout as s =
     (if as = [] then s
      else s\<lparr> callStatus := idle, statusMessage := ascii ''Ready to call'',
              callDuration := (if ResetAfterCall \<in> set as then 0 else callDuration s) \<rparr>)"
proof (induction as arbitrary: s)
  case Nil
  then show ?case by simp
next
  case (Cons a as)
  show ?case
    by (cases a) (simp_all add: Cons.IH run_timeout_simps)
qed

lemma timeouts_tick_ms:
  "timeouts (tick_ms s) = map (\<lambda>(r, a). (r - 1, a)) (filter (\<lambda>(r, a). \<not> r \<le> 1) (timeouts s))"
  by (simp add: tick_ms_def Let_def fold_run_timeout)

lemma intervals_tick_ms:
  "intervals (tick_ms s) = map (\<lambda>(i, r). (i, if r \<le> 1 then 1000 else r - 1)) (intervals s)"
  by (simp add: tick_ms_def Let_def fold_run_timeout)

lemma tick_ms_no_timers:
  "intervals s = [] \<Longrightarrow> timeouts s = [] \<Longrightarrow> tick_ms s = s"
  by (simp add: tick_ms_def)

lemma elapse_no_timers:
  "intervals s = [] \<Longrightarrow> timeouts s = [] \<Longrightarrow> elapse n s = s"
  by (induction n) (simp_all add: tick_ms_no_timers)

lemma tick_ms_no_timeouts:
  assumes "timeouts s = []"
  shows "callStatus (tick_ms s) = callStatus s" and "timeouts (tick_ms s) = []"
  using assms by (simp_all add: tick_ms_def)

lemma elapse_no_timeouts:
  "timeouts s = [] \<Longrightarrow> callStatus (elapse n s) = callStatus s"
  by (induction n arbitrary: s) (simp_all add: tick_ms_no_timeouts)

lemma elapse_add: "elapse (m + n) s = elapse n (elapse m s)"
  by (induction m arbitrary: s) simp_all

lemma callStatus_tick_ms_fired:
  assumes "(r, a) \<in> set (timeouts s)" and "r \<le> 1"
  shows "callStatus (tick_ms s) = idle"
proof -
  from assms have "filter (\<lambda>(r, a). r \<le> 1) (timeouts s) \<noteq> []"
    by (auto simp: filter_empty_conv)
  then show ?thesis
    by (simp add: tick_ms_def Let_def fold_run_timeout)
qed

lemma timeouts_tick_ms_pending:
  assumes "(r, a) \<in> set (timeouts s)" and "1 < r"
  shows "(r - 1, a) \<in> set (timeouts (tick_ms s))"
  using assms by (force simp: timeouts_tick_ms)

lemma timeout_fires:
  "(r, a) \<in> set (timeouts s) \<Longrightarrow> 0 < r \<Longrightarrow> callStatus (elapse r s) = idle"
proof (induction r arbitrary: s)
  case 0
  then show ?case by simp
next
  case (Suc r)
  show ?case
  proof (cases "r = 0")
    case True
    with Suc.prems show ?thesis
      by (simp add: callStatus_tick_ms_fired)
  next
    case False
    with Suc.prems have "(r, a) \<in> set (timeouts (tick_ms s))"
      using timeouts_tick_ms_pending [of "Suc r" a s] by simp
    with False show ?thesis
      by (simp add: Suc.IH)
  qed
qed

lemma tick_ms_single_timeout:
  assumes "timeouts s = [(r, a)]" and "1 < r"
  shows "timeouts (tick_ms s) = [(r - 1, a)]" and "callStatus (tick_ms s) = callStatus s"
  using assms by (simp_all add: tick_ms_def Let_def)

lemma elapse_single_timeout:
  "timeouts s = [(r, a)] \<Longrightarrow> n < r \<Longrightarrow>
     timeouts (elapse n s) = [(r - n, a)] \<and> callStatus (elapse n s) = callStatus s"
proof (induction n arbitrary: s r)
  case 0
  then show ?case by simp
next
  case (Suc n)
  from Suc.prems have r: "1 < r" by simp
  have t: "timeouts (tick_ms s) = [(r - 1, a)]" and c: "callStatus (tick_ms s) = callStatus s"
    using tick_ms_single_timeout [OF Suc.prems(1) r] by simp_all
  from Suc.prems have "n < r - 1" by simp
  from Suc.IH [OF t this] c show ?case by simp
qed

lemma tick_ms_only_timeout:
  assumes "intervals s = []" and "timeouts s = [(r, a)]" and "1 < r"
  shows "tick_ms s = s\<lparr> timeouts := [(r - 1, a)] \<rparr>"
  using assms by (cases s) (simp add: tick_ms_def)

lemma tick_ms_only_timeout_due:
  assumes "intervals s = []" and "timeouts s = [(r, a)]" and "r \<le> 1"
  shows "tick_ms s = run_timeout a (s\<lparr> timeouts := [] \<rparr>)"
  using assms by (cases s) (simp add: tick_ms_def)

lemma elapse_only_timeout:
  "intervals s = [] \<Longrightarrow> timeouts s = [(r, a)] \<Longrightarrow> n < r \<Longrightarrow>
     elapse n s = s\<lparr> timeouts := [(r - n, a)] \<rparr>"
proof (induction n arbitrary: s r)
  case 0
  then show ?case by (cases s) simp
next
  case (Suc n)
  from Suc.prems have r: "1 < r" by simp
  have t: "tick_ms s = s\<lparr> timeouts := [(r - 1, a)] \<rparr>"
    using tick_ms_only_timeout [OF Suc.prems(1,2) r] .
  have "elapse n (s\<lparr> timeouts := [(r - 1, a)] \<rparr>)
          = s\<lparr> timeouts := [(r - 1, a)] \<rparr>\<lparr> timeouts := [(r - 1 - n, a)] \<rparr>"
    using Suc.prems by (intro Suc.IH) simp_all
  with t show ?case by simp
qed

lemma elapse_only_timeout_due:
  assumes "intervals s = []" and "timeouts s = [(r, a)]" and "0 < r"
  shows "elapse r s = run_timeout a (s\<lparr> timeouts := [] \<rparr>)"
proof -
  obtain n where n: "r = Suc n" using assms(3) by (cases r) simp_all
  have e: "elapse n s = s\<lparr> timeouts := [(r - n, a)] \<rparr>"
    using elapse_only_timeout [OF assms(1,2), of n] n by simp
  have "elapse r s = elapse 1 (elapse n s)"
    using elapse_add [of n 1 s] n by simp
  also have "\<dots> = tick_ms (s\<lparr> timeouts := [(1, a)] \<rparr>)"
    using e n by simp
  also have "\<dots> = run_timeout a (s\<lparr> timeouts := [(1, a)] \<rparr>\<lparr> timeouts := [] \<rparr>)"
    using assms(1) tick_ms_only_timeout_due [of "s\<lparr> timeouts := [(1, a)] \<rparr>" 1 a] by simp
  finally show ?thesis by simp
qed

lemma tick_ms_only_interval:
  assumes "intervals s = [(t, r)]" and "timeouts s = []" and "1 < r"
  shows "tick_ms s = s\<lparr> intervals := [(t, r - 1)] \<rparr>"
  using assms by (cases s) (simp add: tick_ms_def)

lemma tick_ms_only_interval_due:
  assumes "intervals s = [(t, r)]" and "timeouts s = []" and "r \<le> 1"
  shows "tick_ms s = s\<lparr> intervals := [(t, 1000)], callDuration := callDuration s + 1 \<rparr>"
  using assms by (cases s) (simp add: tick_ms_def)

lemma elapse_only_interval:
  "intervals s = [(t, r)] \<Longrightarrow> timeouts s = [] \<Longrightarrow> n < r \<Longrightarrow>
     elapse n s = s\<lparr> intervals := [(t, r - n)] \<rparr>"
proof (induction n arbitrary: s r)
  case 0
  then show ?case by (cases s) simp
next
  case (Suc n)
  from Suc.prems have r: "1 < r" by simp
  have t: "tick_ms s = s\<lparr> intervals := [(t, r - 1)] \<rparr>"
    using tick_ms_only_interval [OF Suc.prems(1,2) r] .
  have "elapse n (s\<lparr> intervals := [(t, r - 1)] \<rparr>)
          = s\<lparr> intervals := [(t, r - 1)] \<rparr>\<lparr> intervals := [(t, r - 1 - n)] \<rparr>"
    using Suc.prems by (intro Suc.IH) simp_all
  with t show ?case by simp
qed

lemma elapse_only_interval_due:
  assumes "intervals s = [(t, r)]" and "timeouts s = []" and "0 < r"
  shows "elapse r s = s\<lparr> intervals := [(t, 1000)], callDuration := callDuration s + 1 \<rparr>"
proof -
  obtain n where n: "r = Suc n" using assms(3) by (cases r) simp_all
  have e: "elapse n s = s\<lparr> intervals := [(t, r - n)] \<rparr>"
    using elapse_only_interval [OF assms(1,2), of n] n by simp
  have "elapse r s = elapse 1 (elapse n s)"
    using elapse_add [of n 1 s] n by simp
  also have "\<dots> = tick_ms (s\<lparr> intervals := [(t, 1)] \<rparr>)"
    using e n by simp
  also have "\<dots> = s\<lparr> intervals := [(t, 1)] \<rparr>
                     \<lparr> intervals := [(t, 1000)],
                       callDuration := callDuration (s\<lparr> intervals := [(t, 1)] \<rparr>) + 1 \<rparr>"
    using assms(2) tick_ms_only_interval_due [of "s\<lparr> intervals := [(t, 1)] \<rparr>" t 1] by simp
  finally show ?thesis by simp
qed

lemma interval_fires_once_per_second:
  assumes "intervals s = [(t, r)]" and "timeouts s = []" and "0 < r" and "r \<le> 1000"
  shows "callDuration (elapse 1000 s) = callDuration s + 1"
proof -
  let ?s1 = "s\<lparr> intervals := [(t, 1000)], callDuration := callDuration s + 1 \<rparr>"
  have "elapse 1000 s = elapse (1000 - r) (elapse r s)"
    using elapse_add [of r "1000 - r" s] assms(4) by simp
  also have "\<dots> = elapse (1000 - r) ?s1"
    using elapse_only_interval_due [OF assms(1,2,3)] by simp
  also have "\<dots> = ?s1\<lparr> intervals := [(t, 1000 - (1000 - r))] \<rparr>"
    using assms(2,3) by (intro elapse_only_interval) simp_all
  finally show ?thesis by simp
qed

section \<open>Call Controller: calls\<close>

lemma call_ended_with_fields:
  "callStatus (call_ended_with msg s) = call_ended"
  "timerRef (call_ended_with msg s) = None"
  "currentCallRef (call_ended_with msg s) = None"
  "callDuration (call_ended_with msg s) = callDuration s"
  "timeouts (call_ended_with msg s) = timeouts s @ [(3000, ResetAfterCall)]"
  "intervals (call_ended_with msg s) =
     (case timerRef s of Some t \<Rightarrow> filter (\<lambda>(i, r). i \<noteq> t) (intervals s) | None \<Rightarrow> intervals s)"
  by (simp_all add: call_ended_with_def setTimeout3000_def stop_timer_def split: option.splits)

text \<open>
  C7. When a call receives \<open>disconnect\<close>, the status becomes \<open>call_ended\<close>, the
  interval held in \<open>timerRef\<close> is cancelled and \<open>timerRef\<close> cleared, the call
  reference is cleared, and 3000 milliseconds later the status is \<open>idle\<close>. For a call
  whose only running interval is the one held in \<open>timerRef\<close>, with no other timeout
  pending, no interval is left running, the duration keeps its value (and the status stays
  \<open>call_ended\<close>) during the next 3000 milliseconds, and after 3000 milliseconds the
  duration is 0.
\<close>

theorem disconnect_ends_call:
  "callStatus (call_on Disconnect s) = call_ended
   \<and> timerRef (call_on Disconnect s) = None
   \<and> currentCallRef (call_on Disconnect s) = None
   \<and> (\<forall>t r. timerRef s = Some t \<longrightarrow> (t, r) \<notin> set (intervals (call_on Disconnect s)))
   \<and> callStatus (elapse 3000 (call_on Disconnect s)) = idle
   \<and> (timeouts s = [] \<and> (\<forall>(i, r) \<in> set (intervals s). timerRef s = Some i) \<longrightarrow>
        intervals (call_on Disconnect s) = []
        \<and> (\<forall>n<3000. callStatus (elapse n (call_on Disconnect s)) = call_ended
                     \<and> callDuration (elapse n (call_on Disconnect s)) = callDuration s)
        \<and> callDuration (elapse 3000 (call_on Disconnect s)) = 0)"
proof -
  let ?s = "call_on Disconnect s"
  have eq: "?s = call_ended_with (ascii ''Call ended'') s"
    by (simp add: call_on_def)
  have now: "callStatus ?s = call_ended" "timerRef ?s = None" "currentCallRef ?s = None"
    by (simp_all add: eq call_ended_with_fields)
  have cancelled: "(t, r) \<notin> set (intervals ?s)" if "timerRef s = Some t" for t r
    using that by (simp add: eq call_ended_with_fields)
  have recovered: "callStatus (elapse 3000 ?s) = idle"
    by (rule timeout_fires [where a = ResetAfterCall]) (simp_all add: eq call_ended_with_fields)
  have clean: "intervals ?s = []
        \<and> (\<forall>n<3000. callStatus (elapse n ?s) = call_ended
                     \<and> callDuration (elapse n ?s) = callDuration s)
        \<and> callDuration (elapse 3000 ?s) = 0"
    if h: "timeouts s = [] \<and> (\<forall>(i, r) \<in> set (intervals s). timerRef s = Some i)"
  proof -
    have i: "intervals ?s = []"
    proof (cases "timerRef s")
      case None
      with h have "intervals s = []" by (cases "intervals s") auto
      with None show ?thesis by (simp add: eq call_ended_with_fields)
    next
      case (Some t)
      with h have "filter (\<lambda>(i, r). i \<noteq> t) (intervals s) = []"
        by (auto simp: filter_empty_conv)
      with Some show ?thesis by (simp add: eq call_ended_with_fields)
    qed
    have t: "timeouts ?s = [(3000, ResetAfterCall)]"
      using h by (simp add: eq call_ended_with_fields)
    have before: "callStatus (elapse n ?s) = call_ended
                  \<and> callDuration (elapse n ?s) = callDuration s" if "n < 3000" for n
      using elapse_only_timeout [OF i t that] by (simp add: eq call_ended_with_fields)
    have after: "elapse 3000 ?s = run_timeout ResetAfterCall (?s\<lparr> timeouts := [] \<rparr>)"
      using elapse_only_timeout_due [OF i t] by simp
    have "callDuration (elapse 3000 ?s) = 0"
      by (simp add: after run_timeout_simps)
    with i before show ?thesis by blast
  qed
  from now cancelled recovered clean show ?thesis by blast
qed

lemma call_at_12s_fields:
  "callStatus call_at_12s = in_call" "callDuration call_at_12s = 12"
  "timerRef call_at_12s = Some 1" "intervals call_at_12s = [(1, 1000)]"
  "timeouts call_at_12s = []" "currentCallRef call_at_12s = Some 0"
  "deviceRef call_at_12s = Some 0"
  "devices call_at_12s = [\<lparr> dev_token = ascii ''jwt'', destroyed = False, registered = True \<rparr>]"
  by (simp_all add: call_at_12s_def call_on_def makeCall_def initializeDevice_def
      complete_sample_state env_ok_def token_response_def response_ok_def present_def or_empty_def
      device_on_def Let_def sample_state_fields jwt_nonempty)

theorem disconnect_ends_call_witness:
  "callStatus call_at_12s = in_call \<and> callDuration call_at_12s = 12
   \<and> callStatus (call_on Disconnect call_at_12s) = call_ended
   \<and> timerRef (call_on Disconnect call_at_12s) = None
   \<and> intervals (call_on Disconnect call_at_12s) = []
   \<and> currentCallRef (call_on Disconnect call_at_12s) = None
   \<and> callDuration (elapse 2999 (call_on Disconnect call_at_12s)) = 12
   \<and> callStatus (elapse 2999 (call_on Disconnect call_at_12s)) = call_ended
   \<and> callStatus (elapse 3000 (call_on Disconnect call_at_12s)) = idle
   \<and> callDuration (elapse 3000 (call_on Disconnect call_at_12s)) = 0"
  using disconnect_ends_call [of call_at_12s]
  by (simp add: call_at_12s_fields)

lemma call_error_fields:
  "callStatus (call_on (CallError m) s) = error"
  "timeouts (call_on (CallError m) s) = timeouts s @ [(3000, ResetAfterCall)]"
  by (simp_all add: call_on_def setTimeout3000_def stop_timer_def split: option.splits)

lemma connect_failure_fields:
  assumes "deviceRef s \<noteq> None"
  shows "callStatus (makeCall (Some t) s) = error"
    and "timeouts (makeCall (Some t) s) = timeouts s @ [(3000, ResetAfterConnectFailure)]"
  using assms by (auto simp: makeCall_def setTimeout3000_def Let_def)

lemma initializeDevice_failed:
  assumes "initialization_fails env s"
  shows "callStatus (initializeDevice env s) = error"
  using assms
  by (auto simp: initialization_fails_def initializeDevice_def Let_def init_failed_def
      split: option.splits fetch_outcome.splits json_result.splits)

lemma initializeDevice_stored:
  assumes "\<not> initialization_fails env s"
  shows "deviceRef (initializeDevice env s) = Some (length (devices s))"
proof -
  from assms have c: "areCredentialsComplete s"
    and k: "env_construct env = None" and r: "env_register env = None"
    by (simp_all add: initialization_fails_def)
  from assms obtain st stText d where f: "env_fetch env = FetchResolves st stText (JsonValue d)"
    and ok: "response_ok st" and tok: "present (json_token d)"
    by (cases "env_fetch env"; cases "case env_fetch env of FetchResolves st stText js \<Rightarrow> js")
       (auto simp: initialization_fails_def)
  show ?thesis
    by (cases "deviceRef s")
       (simp_all add: initializeDevice_def Let_def c k r f ok tok destroy_frame
          fold_device_on_frame)
qed

text \<open>
  C1, as the code has it. The recovery after 3 seconds is scheduled on the call-level
  paths: a call \<open>error\<close> event sets the status \<open>error\<close> and 3000 milliseconds later
  the status is \<open>idle\<close> (and, with no other timeout pending, it is \<open>error\<close> until
  then); a \<open>connect\<close> that raises in \<open>makeCall\<close> does the same. A Device
  \<open>error\<close> event sets the status \<open>error\<close> and schedules no timeout, and so does a
  run of \<open>initializeDevice\<close> that fails (a run that does not fail stores the new Device
  in \<open>deviceRef\<close>); with no timeout pending, the status then is \<open>error\<close> after any
  number of milliseconds.
\<close>

theorem call_error_recovers:
  "callStatus (call_on (CallError m) s) = error
   \<and> callStatus (elapse 3000 (call_on (CallError m) s)) = idle
   \<and> (timeouts s = [] \<longrightarrow>
        (\<forall>n<3000. callStatus (elapse n (call_on (CallError m) s)) = error))
   \<and> (deviceRef s \<noteq> None \<longrightarrow>
        callStatus (makeCall (Some t) s) = error
        \<and> callStatus (elapse 3000 (makeCall (Some t) s)) = idle
        \<and> (timeouts s = [] \<longrightarrow>
             (\<forall>n<3000. callStatus (elapse n (makeCall (Some t) s)) = error)))
   \<and> callStatus (device_on (DeviceError m) s) = error
   \<and> timeouts (device_on (DeviceError m) s) = timeouts s
   \<and> (timeouts s = [] \<longrightarrow>
        (\<forall>n. callStatus (elapse n (device_on (DeviceError m) s)) = error))
   \<and> timeouts (initializeDevice env s) = timeouts s
   \<and> (initialization_fails env s \<longrightarrow>
        callStatus (initializeDevice env s) = error
        \<and> (timeouts s = [] \<longrightarrow>
             (\<forall>n. callStatus (elapse n (initializeDevice env s)) = error)))
   \<and> (\<not> initialization_fails env s \<longrightarrow>
        deviceRef (initializeDevice env s) = Some (length (devices s)))"
proof -
  have call: "callStatus (call_on (CallError m) s) = error"
    by (simp add: call_error_fields)
  have call_after: "callStatus (elapse 3000 (call_on (CallError m) s)) = idle"
    by (rule timeout_fires [where a = ResetAfterCall]) (simp_all add: call_error_fields)
  have call_before: "callStatus (elapse n (call_on (CallError m) s)) = error"
    if "timeouts s = []" and "n < 3000" for n
    using that elapse_single_timeout [of "call_on (CallError m) s" 3000 ResetAfterCall n]
    by (simp add: call_error_fields)
  have conn: "callStatus (makeCall (Some t) s) = error
        \<and> callStatus (elapse 3000 (makeCall (Some t) s)) = idle
        \<and> (timeouts s = [] \<longrightarrow>
             (\<forall>n<3000. callStatus (elapse n (makeCall (Some t) s)) = error))"
    if d: "deviceRef s \<noteq> None"
  proof (intro conjI impI allI)
    from d show "callStatus (makeCall (Some t) s) = error"
      by (simp add: connect_failure_fields)
    from d show "callStatus (elapse 3000 (makeCall (Some t) s)) = idle"
      by (intro timeout_fires [where a = ResetAfterConnectFailure])
         (simp_all add: connect_failure_fields)
  next
    fix n :: nat
    assume "timeouts s = []" and "n < 3000"
    with d show "callStatus (elapse n (makeCall (Some t) s)) = error"
      using elapse_single_timeout [of "makeCall (Some t) s" 3000 ResetAfterConnectFailure n]
      by (simp add: connect_failure_fields)
  qed
  have dev: "callStatus (device_on (DeviceError m) s) = error"
    by (simp add: device_on_def)
  have dev_timeouts: "timeouts (device_on (DeviceError m) s) = timeouts s"
    by (simp add: device_on_frame)
  have dev_stays: "callStatus (elapse n (device_on (DeviceError m) s)) = error"
    if "timeouts s = []" for n
    using that elapse_no_timeouts [of "device_on (DeviceError m) s" n]
    by (simp add: dev dev_timeouts)
  have init_timeouts: "timeouts (initializeDevice env s) = timeouts s"
    by (simp add: initializeDevice_frame)
  have init: "callStatus (initializeDevice env s) = error
        \<and> (timeouts s = [] \<longrightarrow>
             (\<forall>n. callStatus (elapse n (initializeDevice env s)) = error))"
    if f: "initialization_fails env s"
  proof (intro conjI impI allI)
    show e: "callStatus (initializeDevice env s) = error"
      using f by (rule initializeDevice_failed)
    fix n :: nat
    assume "timeouts s = []"
    then show "callStatus (elapse n (initializeDevice env s)) = error"
      using elapse_no_timeouts [of "initializeDevice env s" n]
      by (simp add: e init_timeouts)
  qed
  have stored: "deviceRef (initializeDevice env s) = Some (length (devices s))"
    if "\<not> initialization_fails env s"
    using that by (rule initializeDevice_stored)
  from call call_after call_before conn dev dev_timeouts dev_stays init_timeouts init stored
  show ?thesis by blast
qed

lemma fold_device_on_credentials:
  "accountSid (fold device_on evs s) = accountSid s \<and> apiKey (fold device_on evs s) = apiKey s
   \<and> apiSecret (fold device_on evs s) = apiSecret s \<and> appSid (fold device_on evs s) = appSid s"
  by (induction evs arbitrary: s) (simp_all add: device_on_def split: device_event.splits)

lemma initializeDevice_credentials:
  "accountSid (initializeDevice env s) = accountSid s \<and> apiKey (initializeDevice env s) = apiKey s
   \<and> apiSecret (initializeDevice env s) = apiSecret s \<and> appSid (initializeDevice env s) = appSid s"
  by (simp add: initializeDevice_def Let_def init_failed_def destroy_def fold_device_on_credentials
      split: option.splits fetch_outcome.splits json_result.splits)

lemma areCredentialsComplete_initializeDevice:
  "areCredentialsComplete (initializeDevice env s) = areCredentialsComplete s"
  by (rule areCredentialsComplete_cong) (simp_all add: initializeDevice_credentials)

lemma init_ok_fields:
  "deviceRef (initializeDevice env_ok sample_state) = Some 0"
  "devices (initializeDevice env_ok sample_state) =
     [\<lparr> dev_token = ascii ''jwt'', destroyed = False, registered = True \<rparr>]"
  "callStatus (initializeDevice env_ok sample_state) = idle"
  "timeouts (initializeDevice env_ok sample_state) = []"
  "intervals (initializeDevice env_ok sample_state) = []"
  by (simp_all add: initializeDevice_def complete_sample_state env_ok_def token_response_def
      response_ok_def present_def or_empty_def device_on_def Let_def sample_state_fields
      jwt_nonempty)

lemma init_rejects_fields:
  "deviceRef (initializeDevice env_register_rejects sample_state) = None"
  "devices (initializeDevice env_register_rejects sample_state) =
     [\<lparr> dev_token = ascii ''jwt'', destroyed = False, registered = False \<rparr>]"
  "callStatus (initializeDevice env_register_rejects sample_state) = error"
  "timeouts (initializeDevice env_register_rejects sample_state) = []"
  "intervals (initializeDevice env_register_rejects sample_state) = []"
  by (simp_all add: initializeDevice_def env_register_rejects_def token_response_def
      response_ok_def present_def or_empty_def init_failed_def Let_def sample_state_fields
      jwt_nonempty complete_sample_state)

lemma register_rejects_fails: "initialization_fails env_register_rejects sample_state"
  by (simp add: initialization_fails_def env_register_rejects_def)

lemma env_ok_does_not_fail: "\<not> initialization_fails env_ok sample_state"
  by (simp add: initialization_fails_def env_ok_def token_response_def response_ok_def
      present_def jwt_nonempty complete_sample_state)

theorem call_error_recovers_witness:
  "callStatus (call_on (CallError (ascii ''lost'')) call_at_12s) = error
   \<and> callStatus (elapse 2999 (call_on (CallError (ascii ''lost'')) call_at_12s)) = error
   \<and> callStatus (elapse 3000 (call_on (CallError (ascii ''lost'')) call_at_12s)) = idle
   \<and> callStatus (makeCall (Some NonError) (initializeDevice env_ok sample_state)) = error
   \<and> callStatus (elapse 2999 (makeCall (Some NonError) (initializeDevice env_ok sample_state)))
       = error
   \<and> callStatus (elapse 3000 (makeCall (Some NonError) (initializeDevice env_ok sample_state)))
       = idle
   \<and> callStatus (device_on (DeviceError (ascii ''expired'')) sample_state) = error
   \<and> callStatus (elapse 3000 (device_on (DeviceError (ascii ''expired'')) sample_state)) = error
   \<and> initialization_fails env_register_rejects sample_state
   \<and> callStatus (initializeDevice env_register_rejects sample_state) = error
   \<and> callStatus (elapse 3000 (initializeDevice env_register_rejects sample_state)) = error
   \<and> \<not> initialization_fails env_ok sample_state
   \<and> deviceRef (initializeDevice env_ok sample_state) = Some 0"
  using call_error_recovers [of "ascii ''lost''" call_at_12s NonError env_ok]
        call_error_recovers
          [of "ascii ''expired''" "initializeDevice env_ok sample_state" NonError env_ok]
        call_error_recovers
          [of "ascii ''expired''" sample_state NonError env_register_rejects]
        call_error_recovers [of "ascii ''expired''" sample_state NonError env_ok]
        register_rejects_fails env_ok_does_not_fail
  by (simp add: call_at_12s_fields init_ok_fields sample_state_fields)

text \<open>
  C1 as stated fails: after a Device \<open>error\<close> event, and after an initialization in
  which \<open>register()\<close> rejects, the status is \<open>error\<close> and is still \<open>error\<close>
  3000 milliseconds later.
\<close>

theorem device_error_counterexample:
  "callStatus (device_on (DeviceError (ascii ''expired'')) (initializeDevice env_ok sample_state))
     = error
   \<and> callStatus (elapse 3000
        (device_on (DeviceError (ascii ''expired'')) (initializeDevice env_ok sample_state)))
     = error
   \<and> callStatus (initializeDevice env_register_rejects sample_state) = error
   \<and> callStatus (elapse 3000 (initializeDevice env_register_rejects sample_state)) = error"
proof -
  have "elapse 3000 (device_on (DeviceError (ascii ''expired''))
          (initializeDevice env_ok sample_state))
        = device_on (DeviceError (ascii ''expired'')) (initializeDevice env_ok sample_state)"
    by (rule elapse_no_timers) (simp_all add: device_on_frame init_ok_fields)
  moreover have "elapse 3000 (initializeDevice env_register_rejects sample_state)
        = initializeDevice env_register_rejects sample_state"
    by (rule elapse_no_timers) (simp_all add: init_rejects_fields)
  ultimately show ?thesis
    by (simp add: init_rejects_fields) (simp add: device_on_def)
qed

text \<open>
  C9. \<open>resetConfiguration\<close> leaves \<open>timerRef\<close>, the running intervals, the call
  reference, the disconnect requests and the duration as they are, while it sets the
  status to \<open>idle\<close>, clears the credentials in memory and in storage, and destroys the
  Device and clears its reference. An interval that was running keeps firing: one second
  after the reset the duration has grown by one.
\<close>

theorem resetConfiguration_frame:
  "timerRef (resetConfiguration s) = timerRef s
   \<and> intervals (resetConfiguration s) = intervals s
   \<and> currentCallRef (resetConfiguration s) = currentCallRef s
   \<and> disconnectRequests (resetConfiguration s) = disconnectRequests s
   \<and> callDuration (resetConfiguration s) = callDuration s
   \<and> callStatus (resetConfiguration s) = idle
   \<and> \<not> isConfigured (resetConfiguration s)
   \<and> accountSid (resetConfiguration s) = [] \<and> apiKey (resetConfiguration s) = []
   \<and> apiSecret (resetConfiguration s) = [] \<and> appSid (resetConfiguration s) = []
   \<and> localStorage (resetConfiguration s) = None
   \<and> deviceRef (resetConfiguration s) = None
   \<and> (\<forall>d. deviceRef s = Some d \<and> d < length (devices s) \<longrightarrow>
          destroyed (devices (resetConfiguration s) ! d))
   \<and> (intervals s = [(t, r)] \<and> 0 < r \<and> r \<le> 1000 \<and> timeouts s = [] \<longrightarrow>
        callDuration (elapse 1000 (resetConfiguration s)) = callDuration s + 1)"
proof -
  have frame: "timerRef (resetConfiguration s) = timerRef s"
    "intervals (resetConfiguration s) = intervals s"
    "timeouts (resetConfiguration s) = timeouts s"
    "currentCallRef (resetConfiguration s) = currentCallRef s"
    "disconnectRequests (resetConfiguration s) = disconnectRequests s"
    "callDuration (resetConfiguration s) = callDuration s"
    by (simp_all add: resetConfiguration_def clearCredentialsFromStorage_def destroy_def Let_def
        split: option.splits)
  have cleared: "callStatus (resetConfiguration s) = idle" "\<not> isConfigured (resetConfiguration s)"
    "accountSid (resetConfiguration s) = []" "apiKey (resetConfiguration s) = []"
    "apiSecret (resetConfiguration s) = []" "appSid (resetConfiguration s) = []"
    "localStorage (resetConfiguration s) = None" "deviceRef (resetConfiguration s) = None"
    by (simp_all add: resetConfiguration_def clearCredentialsFromStorage_def destroy_def Let_def
        split: option.splits)
  have dev: "destroyed (devices (resetConfiguration s) ! d)"
    if "deviceRef s = Some d \<and> d < length (devices s)" for d
    using that
    by (simp add: resetConfiguration_def clearCredentialsFromStorage_def destroy_def Let_def)
  have running: "callDuration (elapse 1000 (resetConfiguration s)) = callDuration s + 1"
    if "intervals s = [(t, r)] \<and> 0 < r \<and> r \<le> 1000 \<and> timeouts s = []"
    using that interval_fires_once_per_second [of "resetConfiguration s" t r]
    by (simp add: frame)
  from frame cleared dev running show ?thesis by blast
qed

theorem resetConfiguration_frame_witness:
  "callStatus call_at_12s = in_call
   \<and> timerRef (resetConfiguration call_at_12s) = Some 1
   \<and> intervals (resetConfiguration call_at_12s) = [(1, 1000)]
   \<and> currentCallRef (resetConfiguration call_at_12s) = Some 0
   \<and> callStatus (resetConfiguration call_at_12s) = idle
   \<and> destroyed (devices (resetConfiguration call_at_12s) ! 0)
   \<and> callDuration (elapse 1000 (resetConfiguration call_at_12s)) = 13"
  using resetConfiguration_frame [of call_at_12s 1 1000]
  by (simp add: call_at_12s_fields)

lemma initializeDevice_env_ok:
  assumes "areCredentialsComplete s"
  shows "devices (initializeDevice env_ok s) =
           (case deviceRef s of Some d \<Rightarrow> devices (destroy d s) | None \<Rightarrow> devices s)
           @ [\<lparr> dev_token = ascii ''jwt'', destroyed = False, registered = True \<rparr>]"
    and "deviceRef (initializeDevice env_ok s) = Some (length (devices s))"
  using assms
  by (simp_all add: initializeDevice_def env_ok_def token_response_def response_ok_def
      present_def or_empty_def device_on_def Let_def jwt_nonempty destroy_def
      split: option.splits)

text \<open>
  C6. The claim is that at most one Device is alive at any instant. Evaluated on a run in
  which \<open>register()\<close> rejects, followed by a run that succeeds: the first run leaves a
  Device that is not destroyed and that \<open>deviceRef\<close> does not hold, so the second run
  does not destroy it, and two Devices are alive afterwards.
\<close>

theorem register_rejection_leaks_device:
  "deviceRef (initializeDevice env_register_rejects sample_state) = None
   \<and> live_devices (initializeDevice env_register_rejects sample_state) =
       [\<lparr> dev_token = ascii ''jwt'', destroyed = False, registered = False \<rparr>]
   \<and> live_devices (initializeDevice env_ok (initializeDevice env_register_rejects sample_state)) =
       [\<lparr> dev_token = ascii ''jwt'', destroyed = False, registered = False \<rparr>,
        \<lparr> dev_token = ascii ''jwt'', destroyed = False, registered = True \<rparr>]"
  by (simp add: live_devices_def initializeDevice_env_ok init_rejects_fields
      areCredentialsComplete_initializeDevice complete_sample_state)

text \<open>
  Where \<open>deviceRef\<close> holds the earlier Device the teardown works: two successful runs
  leave one live, registered Device, and a run with complete credentials destroys the
  Device that was held.
\<close>

lemma initializeDevice_twice_succeeding:
  "live_devices (initializeDevice env_ok (initializeDevice env_ok sample_state)) =
     [\<lparr> dev_token = ascii ''jwt'', destroyed = False, registered = True \<rparr>]
   \<and> deviceRef (initializeDevice env_ok (initializeDevice env_ok sample_state)) = Some 1"
  by (simp add: live_devices_def initializeDevice_env_ok init_ok_fields destroy_def
      areCredentialsComplete_initializeDevice complete_sample_state)

lemma initializeDevice_destroys_held:
  assumes "areCredentialsComplete s" and "deviceRef s = Some d" and "d < length (devices s)"
  shows "destroyed (devices (initializeDevice env s) ! d)"
    and "deviceRef (initializeDevice env s) \<noteq> Some d"
  using assms
  by (simp_all add: initializeDevice_def Let_def init_failed_def destroy_def fold_device_on_frame
      nth_append split: option.splits fetch_outcome.splits json_result.splits)

end
